theory Spec2Isabelle
  imports Complex_Main "HOL-Library.Word"
begin

section \<open>Pixel Plant personality engine: data model\<close>

text \<open>
  The development embeds the firmware's \<^verbatim>\<open>PersonalityEngine\<close> class
  (personality_engine.h / personality_engine.cpp) together with the constants of
  config.h that it reads.

  Conventions of the embedding:
  \<^item> every member function takes the engine object as its last argument and returns the
    updated object (paired with the returned value when there is one);
  \<^item> \<^verbatim>\<open>millis()\<close> is an argument \<open>now\<close>; a function that reads the clock
    several times in a row reads the same \<open>now\<close>;
  \<^item> \<^verbatim>\<open>unsigned long\<close> is a 32-bit word (the ESP32 target), so differences of
    time stamps wrap modulo \<open>2 ^ 32\<close>;
  \<^item> \<^verbatim>\<open>float\<close> and \<^verbatim>\<open>double\<close> values are real numbers: decimal literals
    are exact and no rounding happens;
  \<^item> \<^verbatim>\<open>int consecutiveIgnored\<close> is a 32-bit word read as a two's complement number
    (\<open>sint\<close>); its increment wraps from \<open>2 ^ 31 - 1\<close> to \<open>- (2 ^ 31)\<close>, as the
    compiled code does (the overflow is undefined in C++);
  \<^item> \<^verbatim>\<open>useCount\<close> starts at 0 and is only incremented, once for every message
    emitted; it is a natural number;
  \<^item> an Arduino \<^verbatim>\<open>String\<close> is the list of its bytes (the source is UTF-8);
  \<^item> calls of \<^verbatim>\<open>Logger::info\<close> have no effect on the engine and are left out.
\<close>

type_synonym ulong = "32 word"

type_synonym cint = "32 word"

subsection \<open>Enumerations\<close>

text \<open>config.h, \<^verbatim>\<open>enum MoodType\<close>.\<close>

datatype MoodType =
    MOOD_HAPPY
  | MOOD_CARING
  | MOOD_CONCERNED
  | MOOD_WORRIED
  | MOOD_SLEEPING
  | MOOD_CELEBRATING
  | MOOD_COUNT

text \<open>personality_engine.h, \<^verbatim>\<open>enum ResponseType\<close>.\<close>

datatype ResponseType =
    RESPONSE_GREETING
  | RESPONSE_HYDRATION
  | RESPONSE_MOVEMENT
  | RESPONSE_POSTURE
  | RESPONSE_BREAK
  | RESPONSE_ENCOURAGEMENT
  | RESPONSE_CELEBRATION
  | RESPONSE_CONCERN
  | RESPONSE_URGENT
  | RESPONSE_GOODNIGHT
  | RESPONSE_COUNT

text \<open>
  personality_engine.h, \<^verbatim>\<open>enum CareLevel\<close>. The code compares care levels with
  \<^verbatim>\<open><\<close> and \<^verbatim>\<open>>\<close> and computes \<^verbatim>\<open>(CareLevel)(level + 1)\<close>, so the
  enumerators come with their integer values and the cast back.
\<close>

datatype CareLevel =
    CARE_GENTLE
  | CARE_ENCOURAGING
  | CARE_CONCERNED
  | CARE_WORRIED
  | CARE_COUNT

fun care_int :: "CareLevel \<Rightarrow> int" where
  "care_int CARE_GENTLE = 0"
| "care_int CARE_ENCOURAGING = 1"
| "care_int CARE_CONCERNED = 2"
| "care_int CARE_WORRIED = 3"
| "care_int CARE_COUNT = 4"

text \<open>
  The cast \<^verbatim>\<open>(CareLevel) n\<close>. The engine applies it to \<open>level + 1\<close> below
  \<^verbatim>\<open>CARE_WORRIED\<close> and to \<open>level - 1\<close> above \<^verbatim>\<open>CARE_GENTLE\<close> only, that is
  to 0..3; any other integer is mapped to the last enumerator here.
\<close>

definition care_of_int :: "int \<Rightarrow> CareLevel" where
  "care_of_int n =
     (if n = 0 then CARE_GENTLE
      else if n = 1 then CARE_ENCOURAGING
      else if n = 2 then CARE_CONCERNED
      else if n = 3 then CARE_WORRIED
      else CARE_COUNT)"

subsection \<open>Constants of config.h\<close>

definition NORMAL_INACTIVITY_THRESHOLD :: ulong where
  "NORMAL_INACTIVITY_THRESHOLD = 30"

definition CONCERNED_INACTIVITY_THRESHOLD :: ulong where
  "CONCERNED_INACTIVITY_THRESHOLD = 60"

definition URGENT_INACTIVITY_THRESHOLD :: ulong where
  "URGENT_INACTIVITY_THRESHOLD = 120"

definition RESPONSE_COOLDOWN :: ulong where
  "RESPONSE_COOLDOWN = 5000"

definition LEARNING_RATE :: real where
  "LEARNING_RATE = 0.1"

definition CARING_RESPONSE_WARMTH :: real where
  "CARING_RESPONSE_WARMTH = 0.9"

subsection \<open>Structures\<close>

text \<open>
  behavior_monitor.h, \<^verbatim>\<open>struct BehaviorData\<close>: the fields that the personality engine
  reads (the struct has further sensor and timing fields that the engine never looks at).
\<close>

record BehaviorData =
  inactivityMinutes :: ulong
  needsHydration :: bool
  needsMovement :: bool
  needsPostureAdjustment :: bool
  needsSupport :: bool
  hasPositiveBehavior :: bool

text \<open>
  personality_engine.h, \<^verbatim>\<open>struct PersonalityMessage\<close>. The field \<^verbatim>\<open>text\<close> is
  called \<open>msgText\<close> here.
\<close>

record PersonalityMessage =
  msgText :: string
  mood :: MoodType
  careLevel :: CareLevel
  timestamp :: ulong
  useCount :: nat

text \<open>The brace initialiser \<^verbatim>\<open>{text, mood, careLevel, timestamp, useCount}\<close>.\<close>

definition PersonalityMessage_init ::
  "string \<Rightarrow> MoodType \<Rightarrow> CareLevel \<Rightarrow> ulong \<Rightarrow> nat \<Rightarrow> PersonalityMessage" where
  "PersonalityMessage_init t m c ts n =
     \<lparr>msgText = t, mood = m, careLevel = c, timestamp = ts, useCount = n\<rparr>"

record InteractionHistory =
  lastResponseType :: ResponseType
  lastResponseTime :: ulong
  userResponded :: bool
  consecutiveIgnored :: cint
  responseEffectiveness :: real

text \<open>
  The private members of \<^verbatim>\<open>class PersonalityEngine\<close>. The two arrays of size
  \<^verbatim>\<open>RESPONSE_COUNT\<close> are functions of the response type; the code guards every
  access with \<^verbatim>\<open>type < RESPONSE_COUNT\<close>, so their value at \<open>RESPONSE_COUNT\<close> is
  never read or written.
\<close>

record PersonalityEngine =
  currentMood :: MoodType
  currentCareLevel :: CareLevel
  caringIntensity :: real
  personalityWarmth :: real
  messageBank :: "ResponseType \<Rightarrow> PersonalityMessage list"
  messageQueue :: "string list"
  lastMessageTime :: ulong
  history :: InteractionHistory
  userName :: string
  userPreferences :: "ResponseType \<Rightarrow> real"
  learningEnabled :: bool
  adaptationRate :: real
  learningStartTime :: ulong
  responseCooldown :: ulong
  canRespond :: bool

section \<open>Construction and the message bank\<close>

text \<open>
  \<^verbatim>\<open>PersonalityEngine::PersonalityEngine()\<close>. The constructor leaves
  \<^verbatim>\<open>learningStartTime\<close> uninitialised; it is 0 here and \<open>initialize\<close> sets it.
\<close>

definition PersonalityEngine_new :: PersonalityEngine where
  "PersonalityEngine_new =
     \<lparr>currentMood = MOOD_HAPPY,
      currentCareLevel = CARE_GENTLE,
      caringIntensity = CARING_RESPONSE_WARMTH,
      personalityWarmth = CARING_RESPONSE_WARMTH,
      messageBank = (\<lambda>_. []),
      messageQueue = [],
      lastMessageTime = 0,
      history =
        \<lparr>lastResponseType = RESPONSE_GREETING,
         lastResponseTime = 0,
         userResponded = False,
         consecutiveIgnored = 0,
         responseEffectiveness = 0.5\<rparr>,
      userName = ''friend'',
      userPreferences = (\<lambda>_. 0.5),
      learningEnabled = True,
      adaptationRate = LEARNING_RATE,
      learningStartTime = 0,
      responseCooldown = RESPONSE_COOLDOWN,
      canRespond = True\<rparr>"

text \<open>
  Each loader takes a reference to one partition of the bank and appends its messages
  with \<^verbatim>\<open>push_back\<close>, in the order of the source.
\<close>

definition push_back_all ::
  "ResponseType \<Rightarrow> PersonalityMessage list \<Rightarrow> PersonalityEngine \<Rightarrow> PersonalityEngine" where
  "push_back_all type ms e =
     e\<lparr>messageBank := (messageBank e)(type := messageBank e type @ ms)\<rparr>"

definition loadHydrationMessages :: "PersonalityEngine \<Rightarrow> PersonalityEngine" where
  "loadHydrationMessages e = push_back_all RESPONSE_HYDRATION
     [PersonalityMessage_init
        (''Hey there! You need to hydrate! '' @ [CHR 0xF0, CHR 0x9F, CHR 0x92, CHR 0xA7])
        MOOD_CARING CARE_GENTLE 0 0,
      PersonalityMessage_init
        (''Time for some water, {name}! Your body will thank you! '' @ [CHR 0xF0, CHR 0x9F, CHR 0x8C, CHR 0xBF])
        MOOD_CARING CARE_GENTLE 0 0,
      PersonalityMessage_init
        (''How about a refreshing drink? Stay hydrated! '' @ [CHR 0xE2, CHR 0x9C, CHR 0xA8])
        MOOD_HAPPY CARE_GENTLE 0 0,
      PersonalityMessage_init
        (''Your pixel plant thinks you could use some H2O! '' @ [CHR 0xF0, CHR 0x9F, CHR 0x92, CHR 0x99])
        MOOD_HAPPY CARE_GENTLE 0 0,
      PersonalityMessage_init
        (''Thirsty? I bet you are! Take a sip for me! '' @ [CHR 0xF0, CHR 0x9F, CHR 0xA5, CHR 0xA4])
        MOOD_CARING CARE_GENTLE 0 0,
      PersonalityMessage_init
        (''I notice you haven'' @ [CHR 0x27] @ ''t had water in a while. How about it? '' @ [CHR 0xF0, CHR 0x9F, CHR 0x92, CHR 0xA7])
        MOOD_CARING CARE_ENCOURAGING 0 0,
      PersonalityMessage_init
        (''Your caring companion reminds you: hydration is self-care! '' @ [CHR 0xF0, CHR 0x9F, CHR 0x8C, CHR 0xB8])
        MOOD_CARING CARE_ENCOURAGING 0 0,
      PersonalityMessage_init
        (''Let'' @ [CHR 0x27] @ ''s keep that energy up with some refreshing water! '' @ [CHR 0xF0, CHR 0x9F, CHR 0x8C, CHR 0x8A])
        MOOD_CARING CARE_ENCOURAGING 0 0,
      PersonalityMessage_init
        (''Hey {name}, I'' @ [CHR 0x27] @ ''m getting a bit worried about your hydration. Please drink something! '' @ [CHR 0xF0, CHR 0x9F, CHR 0x92, CHR 0xA7])
        MOOD_CONCERNED CARE_CONCERNED 0 0,
      PersonalityMessage_init
        (''It'' @ [CHR 0x27] @ ''s been quite a while since your last drink. Your pixel plant is concerned! '' @ [CHR 0xF0, CHR 0x9F, CHR 0x8C, CHR 0xBF])
        MOOD_CONCERNED CARE_CONCERNED 0 0,
      PersonalityMessage_init
        (''Please, {name} - you really need to drink some water now. I'' @ [CHR 0x27] @ ''m worried about you! '' @ [CHR 0xF0, CHR 0x9F, CHR 0x92, CHR 0xA7])
        MOOD_WORRIED CARE_WORRIED 0 0] e"

definition loadMovementMessages :: "PersonalityEngine \<Rightarrow> PersonalityEngine" where
  "loadMovementMessages e = push_back_all RESPONSE_MOVEMENT
     [PersonalityMessage_init
        (''How about a snack? Take a walk! Stretch it out! '' @ [CHR 0xF0, CHR 0x9F, CHR 0x9A, CHR 0xB6, CHR 0xE2, CHR 0x80, CHR 0x8D, CHR 0xE2, CHR 0x99, CHR 0x80, CHR 0xEF, CHR 0xB8, CHR 0x8F])
        MOOD_CARING CARE_GENTLE 0 0,
      PersonalityMessage_init
        (''Time to get those muscles moving, {name}! Even a little stretch helps! '' @ [CHR 0xF0, CHR 0x9F, CHR 0xA4, CHR 0xB8, CHR 0xE2, CHR 0x80, CHR 0x8D, CHR 0xE2, CHR 0x99, CHR 0x80, CHR 0xEF, CHR 0xB8, CHR 0x8F])
        MOOD_HAPPY CARE_GENTLE 0 0,
      PersonalityMessage_init
        (''Your body is asking for some movement! Listen to it! '' @ [CHR 0xF0, CHR 0x9F, CHR 0x8C, CHR 0x9F])
        MOOD_CARING CARE_GENTLE 0 0,
      PersonalityMessage_init
        (''Let'' @ [CHR 0x27] @ ''s get the blood flowing! A quick walk does wonders! '' @ [CHR 0xF0, CHR 0x9F, CHR 0x8C, CHR 0x88])
        MOOD_HAPPY CARE_GENTLE 0 0,
      PersonalityMessage_init
        (''Movement is medicine! How about a little dance? '' @ [CHR 0xF0, CHR 0x9F, CHR 0x92, CHR 0x83])
        MOOD_HAPPY CARE_GENTLE 0 0,
      PersonalityMessage_init
        (''You'' @ [CHR 0x27] @ ''ve been sitting for a while. Your pixel plant suggests a movement break! '' @ [CHR 0xF0, CHR 0x9F, CHR 0x8C, CHR 0xBF])
        MOOD_CARING CARE_ENCOURAGING 0 0,
      PersonalityMessage_init
        (''I know you'' @ [CHR 0x27] @ ''re focused, but your body needs some love too! Stretch time! '' @ [CHR 0xF0, CHR 0x9F, CHR 0xA7, CHR 0x98, CHR 0xE2, CHR 0x80, CHR 0x8D, CHR 0xE2, CHR 0x99, CHR 0x80, CHR 0xEF, CHR 0xB8, CHR 0x8F])
        MOOD_CARING CARE_ENCOURAGING 0 0,
      PersonalityMessage_init
        (''Even champions need movement breaks! You'' @ [CHR 0x27] @ ''ve got this! '' @ [CHR 0xF0, CHR 0x9F, CHR 0x92, CHR 0xAA])
        MOOD_CARING CARE_ENCOURAGING 0 0,
      PersonalityMessage_init
        (''I'' @ [CHR 0x27] @ ''m noticing you'' @ [CHR 0x27] @ ''ve been still for quite some time. Please move around a bit! '' @ [CHR 0xF0, CHR 0x9F, CHR 0x9A, CHR 0xB6, CHR 0xE2, CHR 0x80, CHR 0x8D, CHR 0xE2, CHR 0x99, CHR 0x82, CHR 0xEF, CHR 0xB8, CHR 0x8F])
        MOOD_CONCERNED CARE_CONCERNED 0 0,
      PersonalityMessage_init
        (''Your caring companion is getting concerned about your posture. Stand up for me? '' @ [CHR 0xF0, CHR 0x9F, CHR 0x8C, CHR 0xB8])
        MOOD_CONCERNED CARE_CONCERNED 0 0] e"

definition loadPostureMessages :: "PersonalityEngine \<Rightarrow> PersonalityEngine" where
  "loadPostureMessages e = push_back_all RESPONSE_POSTURE
     [PersonalityMessage_init
        (''Time to adjust that posture! Stretch it out! '' @ [CHR 0xF0, CHR 0x9F, CHR 0xA7, CHR 0x98])
        MOOD_CARING CARE_GENTLE 0 0,
      PersonalityMessage_init
        (''Roll those shoulders back, {name}! Your spine will thank you! '' @ [CHR 0xF0, CHR 0x9F, CHR 0x92, CHR 0x9A])
        MOOD_CARING CARE_GENTLE 0 0,
      PersonalityMessage_init
        (''Let'' @ [CHR 0x27] @ ''s check that posture! Sit up tall like the amazing person you are! '' @ [CHR 0xE2, CHR 0x9C, CHR 0xA8])
        MOOD_HAPPY CARE_GENTLE 0 0,
      PersonalityMessage_init
        (''Your pixel plant notices some slouching! Time for a posture reset! '' @ [CHR 0xF0, CHR 0x9F, CHR 0x8C, CHR 0xBF])
        MOOD_CARING CARE_GENTLE 0 0,
      PersonalityMessage_init
        (''Gentle reminder: your future self will thank you for good posture now! '' @ [CHR 0xF0, CHR 0x9F, CHR 0x99, CHR 0x8F])
        MOOD_CARING CARE_ENCOURAGING 0 0] e"

definition loadEncouragementMessages :: "PersonalityEngine \<Rightarrow> PersonalityEngine" where
  "loadEncouragementMessages e = push_back_all RESPONSE_ENCOURAGEMENT
     [PersonalityMessage_init
        (''You'' @ [CHR 0x27] @ ''re doing great! Keep up the amazing work! '' @ [CHR 0xF0, CHR 0x9F, CHR 0x8C, CHR 0x9F])
        MOOD_HAPPY CARE_GENTLE 0 0,
      PersonalityMessage_init
        (''Aw, it'' @ [CHR 0x27] @ ''s not so bad! Give yourself a hug! '' @ [CHR 0xF0, CHR 0x9F, CHR 0xA4, CHR 0x97])
        MOOD_CARING CARE_GENTLE 0 0,
      PersonalityMessage_init
        (''I believe in you, {name}! You'' @ [CHR 0x27] @ ''ve got this! '' @ [CHR 0xF0, CHR 0x9F, CHR 0x92, CHR 0xAA])
        MOOD_HAPPY CARE_ENCOURAGING 0 0,
      PersonalityMessage_init
        (''Every small step counts! You'' @ [CHR 0x27] @ ''re making progress! '' @ [CHR 0xF0, CHR 0x9F, CHR 0x8C, CHR 0xB1])
        MOOD_CARING CARE_GENTLE 0 0,
      PersonalityMessage_init
        (''Your pixel plant is proud of your efforts! Keep going! '' @ [CHR 0xF0, CHR 0x9F, CHR 0x8C, CHR 0xBF, CHR 0xE2, CHR 0x9C, CHR 0xA8])
        MOOD_HAPPY CARE_GENTLE 0 0,
      PersonalityMessage_init
        (''Remember: you'' @ [CHR 0x27] @ ''re braver than you believe and stronger than you seem! '' @ [CHR 0xF0, CHR 0x9F, CHR 0xA6, CHR 0x8B])
        MOOD_CARING CARE_ENCOURAGING 0 0,
      PersonalityMessage_init
        (''Tough moments don'' @ [CHR 0x27] @ ''t last, but resilient people like you do! '' @ [CHR 0xF0, CHR 0x9F, CHR 0x8C, CHR 0x88])
        MOOD_CARING CARE_ENCOURAGING 0 0] e"

definition loadCelebrationMessages :: "PersonalityEngine \<Rightarrow> PersonalityEngine" where
  "loadCelebrationMessages e = push_back_all RESPONSE_CELEBRATION
     [PersonalityMessage_init
        (''Wonderful! You took care of yourself! I'' @ [CHR 0x27] @ ''m so proud! '' @ [CHR 0xF0, CHR 0x9F, CHR 0x8E, CHR 0x89])
        MOOD_CELEBRATING CARE_GENTLE 0 0,
      PersonalityMessage_init
        (''Yes! That'' @ [CHR 0x27] @ ''s what I love to see! Great self-care! '' @ [CHR 0xE2, CHR 0x9C, CHR 0xA8])
        MOOD_CELEBRATING CARE_GENTLE 0 0,
      PersonalityMessage_init
        (''You listened to your body! That'' @ [CHR 0x27] @ ''s what caring for yourself looks like! '' @ [CHR 0xF0, CHR 0x9F, CHR 0x92, CHR 0x9A])
        MOOD_HAPPY CARE_GENTLE 0 0,
      PersonalityMessage_init
        (''Your pixel plant is doing a happy dance! Well done, {name}! '' @ [CHR 0xF0, CHR 0x9F, CHR 0x8C, CHR 0xBF, CHR 0xF0, CHR 0x9F, CHR 0x92, CHR 0x83])
        MOOD_CELEBRATING CARE_GENTLE 0 0,
      PersonalityMessage_init
        (''That'' @ [CHR 0x27] @ ''s the spirit! Taking care of yourself is beautiful! '' @ [CHR 0xF0, CHR 0x9F, CHR 0x8C, CHR 0xB8])
        MOOD_HAPPY CARE_GENTLE 0 0] e"

definition loadConcernMessages :: "PersonalityEngine \<Rightarrow> PersonalityEngine" where
  "loadConcernMessages e = push_back_all RESPONSE_CONCERN
     [PersonalityMessage_init
        (''I'' @ [CHR 0x27] @ ''m getting a bit worried about you. Everything okay? '' @ [CHR 0xF0, CHR 0x9F, CHR 0x92, CHR 0x99])
        MOOD_CONCERNED CARE_CONCERNED 0 0,
      PersonalityMessage_init
        (''Your pixel plant is concerned. You matter, and your wellbeing matters! '' @ [CHR 0xF0, CHR 0x9F, CHR 0x8C, CHR 0xBF])
        MOOD_CONCERNED CARE_CONCERNED 0 0,
      PersonalityMessage_init
        (''I care about you, {name}. Let'' @ [CHR 0x27] @ ''s take care of your needs together! '' @ [CHR 0xF0, CHR 0x9F, CHR 0x92, CHR 0x9A])
        MOOD_CONCERNED CARE_CONCERNED 0 0,
      PersonalityMessage_init
        (''I'' @ [CHR 0x27] @ ''m really worried now. Please take a moment for yourself! '' @ [CHR 0xF0, CHR 0x9F, CHR 0x8C, CHR 0xB8])
        MOOD_WORRIED CARE_WORRIED 0 0,
      PersonalityMessage_init
        (''This is your caring companion speaking: you need attention right now! '' @ [CHR 0xF0, CHR 0x9F, CHR 0x92, CHR 0x9B])
        MOOD_WORRIED CARE_WORRIED 0 0] e"

definition loadGreetingMessages :: "PersonalityEngine \<Rightarrow> PersonalityEngine" where
  "loadGreetingMessages e = push_back_all RESPONSE_GREETING
     [PersonalityMessage_init
        (''Hello there! Your caring companion is here! '' @ [CHR 0xF0, CHR 0x9F, CHR 0x8C, CHR 0xBF, CHR 0xE2, CHR 0x9C, CHR 0xA8])
        MOOD_HAPPY CARE_GENTLE 0 0,
      PersonalityMessage_init
        (''Good to see you, {name}! Ready to take great care of yourself today? '' @ [CHR 0xF0, CHR 0x9F, CHR 0x92, CHR 0x9A])
        MOOD_HAPPY CARE_GENTLE 0 0,
      PersonalityMessage_init
        (''Your pixel plant missed you! Let'' @ [CHR 0x27] @ ''s have a wonderful day together! '' @ [CHR 0xF0, CHR 0x9F, CHR 0x8C, CHR 0xB8])
        MOOD_HAPPY CARE_GENTLE 0 0,
      PersonalityMessage_init
        (''Welcome back! I'' @ [CHR 0x27] @ ''m here to help you stay healthy and happy! '' @ [CHR 0xF0, CHR 0x9F, CHR 0x8C, CHR 0x9F])
        MOOD_HAPPY CARE_GENTLE 0 0] e"

definition initializeMessageBank :: "PersonalityEngine \<Rightarrow> PersonalityEngine" where
  "initializeMessageBank e =
     loadGreetingMessages
       (loadConcernMessages
         (loadCelebrationMessages
           (loadEncouragementMessages
             (loadPostureMessages
               (loadMovementMessages
                 (loadHydrationMessages e))))))"

text \<open>\<^verbatim>\<open>PersonalityEngine::initialize()\<close>; it always returns \<^verbatim>\<open>true\<close>.\<close>

definition initialize :: "ulong \<Rightarrow> PersonalityEngine \<Rightarrow> PersonalityEngine" where
  "initialize now e = (initializeMessageBank e)\<lparr>learningStartTime := now\<rparr>"

section \<open>Care level and mood\<close>

definition escalateCareLevel :: "PersonalityEngine \<Rightarrow> PersonalityEngine" where
  "escalateCareLevel e =
     (if care_int (currentCareLevel e) < care_int CARE_WORRIED
      then e\<lparr>currentCareLevel := care_of_int (care_int (currentCareLevel e) + 1)\<rparr>
      else e)"

definition reduceCareLevel :: "PersonalityEngine \<Rightarrow> PersonalityEngine" where
  "reduceCareLevel e =
     (if care_int (currentCareLevel e) > care_int CARE_GENTLE
      then e\<lparr>currentCareLevel := care_of_int (care_int (currentCareLevel e) - 1)\<rparr>
      else e)"

definition setMood :: "MoodType \<Rightarrow> PersonalityEngine \<Rightarrow> PersonalityEngine" where
  "setMood m e = (if currentMood e \<noteq> m then e\<lparr>currentMood := m\<rparr> else e)"

text \<open>Namespace \<^verbatim>\<open>PersonalityTraits\<close>.\<close>

definition behaviorToMood :: "BehaviorData \<Rightarrow> MoodType" where
  "behaviorToMood behavior =
     (if inactivityMinutes behavior > URGENT_INACTIVITY_THRESHOLD then MOOD_WORRIED
      else if inactivityMinutes behavior > CONCERNED_INACTIVITY_THRESHOLD then MOOD_CONCERNED
      else if hasPositiveBehavior behavior then MOOD_CELEBRATING
      else if needsSupport behavior then MOOD_CARING
      else MOOD_HAPPY)"

definition calculateCaringUrgency :: "BehaviorData \<Rightarrow> real" where
  "calculateCaringUrgency behavior =
     (let urgency = 0.0;
          urgency =
            (if inactivityMinutes behavior > URGENT_INACTIVITY_THRESHOLD then urgency + 0.8
             else if inactivityMinutes behavior > CONCERNED_INACTIVITY_THRESHOLD then urgency + 0.5
             else if inactivityMinutes behavior > NORMAL_INACTIVITY_THRESHOLD then urgency + 0.3
             else urgency);
          urgency = (if needsHydration behavior then urgency + 0.3 else urgency);
          urgency = (if needsMovement behavior then urgency + 0.2 else urgency);
          urgency = (if needsPostureAdjustment behavior then urgency + 0.1 else urgency)
      in min urgency 1.0)"

definition updateMood :: "BehaviorData \<Rightarrow> PersonalityEngine \<Rightarrow> PersonalityEngine" where
  "updateMood behavior e =
     (let newMood = behaviorToMood behavior;
          e = setMood newMood e;
          urgency = calculateCaringUrgency behavior;
          e = e\<lparr>caringIntensity := urgency\<rparr>
      in if urgency > 0.7 \<and> care_int (currentCareLevel e) < care_int CARE_WORRIED
         then escalateCareLevel e
         else if urgency < 0.3 \<and> care_int (currentCareLevel e) > care_int CARE_GENTLE
         then reduceCareLevel e
         else e)"

section \<open>User interaction tracking and learning\<close>

text \<open>\<^verbatim>\<open>type < RESPONSE_COUNT\<close> on the enumeration: every enumerator but the last.\<close>

definition adaptToUser :: "ResponseType \<Rightarrow> real \<Rightarrow> PersonalityEngine \<Rightarrow> PersonalityEngine" where
  "adaptToUser type effectiveness e =
     (if type \<noteq> RESPONSE_COUNT
      then e\<lparr>userPreferences := (userPreferences e)
                (type := userPreferences e type * (1.0 - adaptationRate e)
                         + effectiveness * adaptationRate e)\<rparr>
      else e)"

definition recordUserResponse ::
  "ResponseType \<Rightarrow> bool \<Rightarrow> PersonalityEngine \<Rightarrow> PersonalityEngine" where
  "recordUserResponse responseType effective e =
     (let e = e\<lparr>history := (history e)\<lparr>userResponded := True, consecutiveIgnored := 0\<rparr>\<rparr>;
          e = (if learningEnabled e
               then adaptToUser responseType (if effective then 1.0 else 0.0) e
               else e)
      in if effective \<and> care_int (currentCareLevel e) > care_int CARE_GENTLE
         then reduceCareLevel e
         else e)"

definition recordUserIgnored :: "ResponseType \<Rightarrow> PersonalityEngine \<Rightarrow> PersonalityEngine" where
  "recordUserIgnored responseType e =
     (let e = e\<lparr>history := (history e)
                 \<lparr>userResponded := False,
                  consecutiveIgnored := consecutiveIgnored (history e) + 1\<rparr>\<rparr>;
          e = (if learningEnabled e then adaptToUser responseType 0.2 e else e)
      in if sint (consecutiveIgnored (history e)) \<ge> 3
            \<and> care_int (currentCareLevel e) < care_int CARE_WORRIED
         then escalateCareLevel e
         else e)"

text \<open>Inline members of the header.\<close>

definition enableLearning :: "bool \<Rightarrow> PersonalityEngine \<Rightarrow> PersonalityEngine" where
  "enableLearning enable e = e\<lparr>learningEnabled := enable\<rparr>"

definition setAdaptationRate :: "real \<Rightarrow> PersonalityEngine \<Rightarrow> PersonalityEngine" where
  "setAdaptationRate rate e = e\<lparr>adaptationRate := rate\<rparr>"

definition enableResponses :: "bool \<Rightarrow> PersonalityEngine \<Rightarrow> PersonalityEngine" where
  "enableResponses enable e = e\<lparr>canRespond := enable\<rparr>"

definition setUserName :: "string \<Rightarrow> PersonalityEngine \<Rightarrow> PersonalityEngine" where
  "setUserName name e = e\<lparr>userName := name\<rparr>"

section \<open>Message selection\<close>

definition canRespondNow :: "ulong \<Rightarrow> PersonalityEngine \<Rightarrow> bool" where
  "canRespondNow now e \<longleftrightarrow> canRespond e \<and> now - lastMessageTime e > responseCooldown e"

text \<open>
  The body of the loop of \<^verbatim>\<open>selectBestMessage\<close> up to the comparison: the score of
  one message. \<^verbatim>\<open>timeSinceUse / 60000.0\<close> converts the unsigned difference to a
  double.
\<close>

definition messageScore :: "ulong \<Rightarrow> PersonalityEngine \<Rightarrow> PersonalityMessage \<Rightarrow> real" where
  "messageScore now e message =
     (let score = 0.0;
          score = (if careLevel message = currentCareLevel e then score + 0.4 else score);
          score = (if mood message = currentMood e then score + 0.3 else score);
          timeSinceUse = now - timestamp message;
          score = score + (real (unat timeSinceUse) / 60000.0) * 0.2;
          score = score + (10.0 / real (useCount message + 1)) * 0.1
      in score)"

text \<open>
  The range-for loop over the partition. The pointer \<^verbatim>\<open>bestMessage\<close> is the index of
  the element it points to, \<open>None\<close> for \<^verbatim>\<open>nullptr\<close>; \<open>i\<close> is the index of the
  first message of the remaining list.
\<close>

fun selectLoop ::
  "ulong \<Rightarrow> PersonalityEngine \<Rightarrow> PersonalityMessage list \<Rightarrow> nat \<Rightarrow> real \<Rightarrow> nat option
     \<Rightarrow> nat option" where
  "selectLoop now e [] i bestScore bestMessage = bestMessage"
| "selectLoop now e (message # messages) i bestScore bestMessage =
     (let score = messageScore now e message
      in if score > bestScore
         then selectLoop now e messages (i + 1) score (Some i)
         else selectLoop now e messages (i + 1) bestScore bestMessage)"

definition selectBestMessage :: "ulong \<Rightarrow> ResponseType \<Rightarrow> PersonalityEngine \<Rightarrow> nat option" where
  "selectBestMessage now type e =
     (if type = RESPONSE_COUNT \<or> messageBank e type = [] then None
      else selectLoop now e (messageBank e type) 0 (- 1.0) None)"

text \<open>
  Arduino's \<^verbatim>\<open>String::replace(find, replace)\<close> for a string to find that cannot
  overlap itself, as \<^verbatim>\<open>{name}\<close>: every occurrence is replaced, and an empty string
  to find changes nothing.
\<close>

function replace :: "string \<Rightarrow> string \<Rightarrow> string \<Rightarrow> string" where
  "replace fnd rep [] = []"
| "replace fnd rep (c # cs) =
     (if fnd \<noteq> [] \<and> take (length fnd) (c # cs) = fnd
      then rep @ replace fnd rep (drop (length fnd) (c # cs))
      else c # replace fnd rep cs)"
  by pat_completeness auto
termination
  by (relation "measure (\<lambda>(fnd, rep, s). length s)") auto

definition personalizeMessage :: "string \<Rightarrow> PersonalityEngine \<Rightarrow> string" where
  "personalizeMessage baseMessage e = replace ''{name}'' (userName e) baseMessage"

text \<open>The fallback literal of \<^verbatim>\<open>generateCaringResponse\<close> (it ends in a green heart).\<close>

definition fallbackMessage :: string where
  "fallbackMessage = ''I care about you! '' @ [CHR 0xF0, CHR 0x9F, CHR 0x92, CHR 0x9A]"

text \<open>
  \<^verbatim>\<open>generateCaringResponse(ResponseType)\<close>: the returned string and the engine with
  the usage statistics of the chosen message, the time of the last message and the history
  updated.
\<close>

definition generateCaringResponse ::
  "ulong \<Rightarrow> ResponseType \<Rightarrow> PersonalityEngine \<Rightarrow> string \<times> PersonalityEngine" where
  "generateCaringResponse now type e =
     (if \<not> canRespondNow now e then ('''', e)
      else case selectBestMessage now type e of
        None \<Rightarrow> (fallbackMessage, e)
      | Some i \<Rightarrow>
          (let message = messageBank e type ! i;
               message = message\<lparr>useCount := useCount message + 1, timestamp := now\<rparr>;
               e = e\<lparr>messageBank := (messageBank e)(type := (messageBank e type)[i := message]),
                      lastMessageTime := now\<rparr>;
               e = e\<lparr>history := (history e)
                      \<lparr>lastResponseType := type,
                       lastResponseTime := now,
                       userResponded := False\<rparr>\<rparr>
           in (personalizeMessage (msgText message) e, e)))"

definition generateUrgentResponse ::
  "ulong \<Rightarrow> PersonalityEngine \<Rightarrow> string \<times> PersonalityEngine" where
  "generateUrgentResponse now e = generateCaringResponse now RESPONSE_CONCERN (escalateCareLevel e)"

section \<open>Message queue\<close>

definition queueMessage :: "string \<Rightarrow> PersonalityEngine \<Rightarrow> PersonalityEngine" where
  "queueMessage message e =
     (if length (messageQueue e) < 10
      then e\<lparr>messageQueue := messageQueue e @ [message]\<rparr>
      else e)"

text \<open>The overload \<^verbatim>\<open>queueMessage(ResponseType)\<close>.\<close>

definition queueMessageType :: "ulong \<Rightarrow> ResponseType \<Rightarrow> PersonalityEngine \<Rightarrow> PersonalityEngine" where
  "queueMessageType now type e =
     (let (message, e) = generateCaringResponse now type e
      in if message \<noteq> [] then queueMessage message e else e)"

definition getNextMessage :: "PersonalityEngine \<Rightarrow> string \<times> PersonalityEngine" where
  "getNextMessage e =
     (case messageQueue e of
        [] \<Rightarrow> ('''', e)
      | message # rest \<Rightarrow> (message, e\<lparr>messageQueue := rest\<rparr>))"

section \<open>Sequences of engine operations\<close>

text \<open>
  The public operations of the engine whose bodies are in personality_engine.cpp or inline
  in the header, as values, so that a session is a list of them. Operations that return a
  string keep only the engine here.
\<close>

datatype EngineOp =
    Initialize ulong
  | SetUserName string
  | SetMood MoodType
  | UpdateMood BehaviorData
  | GenerateCaringResponse ulong ResponseType
  | GenerateUrgentResponse ulong
  | QueueMessage string
  | QueueMessageType ulong ResponseType
  | GetNextMessage
  | RecordUserResponse ResponseType bool
  | RecordUserIgnored ResponseType
  | AdaptToUser ResponseType real
  | EnableLearning bool
  | SetAdaptationRate real
  | EnableResponses bool

fun step :: "EngineOp \<Rightarrow> PersonalityEngine \<Rightarrow> PersonalityEngine" where
  "step (Initialize now) e = initialize now e"
| "step (SetUserName name) e = setUserName name e"
| "step (SetMood m) e = setMood m e"
| "step (UpdateMood behavior) e = updateMood behavior e"
| "step (GenerateCaringResponse now type) e = snd (generateCaringResponse now type e)"
| "step (GenerateUrgentResponse now) e = snd (generateUrgentResponse now e)"
| "step (QueueMessage message) e = queueMessage message e"
| "step (QueueMessageType now type) e = queueMessageType now type e"
| "step GetNextMessage e = snd (getNextMessage e)"
| "step (RecordUserResponse type effective) e = recordUserResponse type effective e"
| "step (RecordUserIgnored type) e = recordUserIgnored type e"
| "step (AdaptToUser type effectiveness) e = adaptToUser type effectiveness e"
| "step (EnableLearning enable) e = enableLearning enable e"
| "step (SetAdaptationRate rate) e = setAdaptationRate rate e"
| "step (EnableResponses enable) e = enableResponses enable e"

fun run :: "EngineOp list \<Rightarrow> PersonalityEngine \<Rightarrow> PersonalityEngine" where
  "run [] e = e"
| "run (op # ops) e = run ops (step op e)"

text \<open>
  The operations after which the care level can be lower than before: an effective user
  response, and a mood update whose urgency is below 0.3.
\<close>

fun may_reduce :: "EngineOp \<Rightarrow> bool" where
  "may_reduce (RecordUserResponse type effective) = effective"
| "may_reduce (UpdateMood behavior) = (calculateCaringUrgency behavior < 0.3)"
| "may_reduce _ = False"

text \<open>The care levels that name a level: \<^verbatim>\<open>CARE_GENTLE\<close> to \<^verbatim>\<open>CARE_WORRIED\<close>.\<close>

definition valid_care :: "CareLevel \<Rightarrow> bool" where
  "valid_care c \<longleftrightarrow> care_int CARE_GENTLE \<le> care_int c \<and> care_int c \<le> care_int CARE_WORRIED"

text \<open>Behaviour snapshots used as examples.\<close>

definition calm_behavior :: BehaviorData where
  "calm_behavior =
     \<lparr>inactivityMinutes = 0, needsHydration = False, needsMovement = False,
      needsPostureAdjustment = False, needsSupport = False, hasPositiveBehavior = False\<rparr>"

definition long_inactive_behavior :: BehaviorData where
  "long_inactive_behavior = calm_behavior\<lparr>inactivityMinutes := 200\<rparr>"

text \<open>
  Engine states used as examples: an engine after \<^verbatim>\<open>initialize()\<close> at time 0, and the
  same engine after three mood updates with 200 minutes of inactivity.
\<close>

definition ready_engine :: PersonalityEngine where
  "ready_engine = run [Initialize 0] PersonalityEngine_new"



section \<open>Basic facts about care levels\<close>

lemma care_of_int_care_int: "care_of_int (care_int c) = c"
  by (cases c) (simp_all add: care_of_int_def)

lemma care_int_range: "0 \<le> care_int c \<and> care_int c \<le> 4"
  by (cases c) simp_all

lemma care_int_care_of_int: "0 \<le> n \<Longrightarrow> n \<le> 4 \<Longrightarrow> care_int (care_of_int n) = n"
  by (auto simp: care_of_int_def)

lemma care_int_inject: "care_int a = care_int b \<longleftrightarrow> a = b"
  by (cases a; cases b) simp_all

lemma care_escalate:
  "care_int (currentCareLevel (escalateCareLevel e)) =
     (if care_int (currentCareLevel e) < 3 then care_int (currentCareLevel e) + 1
      else care_int (currentCareLevel e))"
  using care_int_range [of "currentCareLevel e"]
  by (simp add: escalateCareLevel_def care_int_care_of_int)

lemma care_reduce:
  "care_int (currentCareLevel (reduceCareLevel e)) =
     (if 0 < care_int (currentCareLevel e) then care_int (currentCareLevel e) - 1
      else care_int (currentCareLevel e))"
  using care_int_range [of "currentCareLevel e"]
  by (simp add: reduceCareLevel_def care_int_care_of_int)

lemma adaptToUser_care [simp]: "currentCareLevel (adaptToUser t x e) = currentCareLevel e"
  by (simp add: adaptToUser_def)

lemma adaptToUser_history [simp]: "history (adaptToUser t x e) = history e"
  by (simp add: adaptToUser_def)

lemma adaptToUser_queue [simp]: "messageQueue (adaptToUser t x e) = messageQueue e"
  by (simp add: adaptToUser_def)

lemma escalate_history [simp]: "history (escalateCareLevel e) = history e"
  by (simp add: escalateCareLevel_def)

lemma reduce_history [simp]: "history (reduceCareLevel e) = history e"
  by (simp add: reduceCareLevel_def)

lemma escalate_queue [simp]: "messageQueue (escalateCareLevel e) = messageQueue e"
  by (simp add: escalateCareLevel_def)

lemma reduce_queue [simp]: "messageQueue (reduceCareLevel e) = messageQueue e"
  by (simp add: reduceCareLevel_def)

lemma care_recordUserResponse:
  "care_int (currentCareLevel (recordUserResponse t effective e)) =
     (if effective \<and> 0 < care_int (currentCareLevel e) then care_int (currentCareLevel e) - 1
      else care_int (currentCareLevel e))"
  by (simp add: recordUserResponse_def Let_def care_reduce)

text \<open>The increment of a 32-bit \<^verbatim>\<open>int\<close>: exact below \<open>2 ^ 31 - 1\<close>, wrapping there.\<close>

lemma sint_add_one:
  fixes c :: cint
  shows "sint (c + 1) = signed_take_bit 31 (sint c + 1)"
  using sint_word_ariths(1) [of c 1] by simp

lemma sint_increment:
  fixes c :: cint
  assumes "sint c < 2147483647"
  shows "sint (c + 1) = sint c + 1"
proof -
  have "- (2 ^ 31) \<le> sint c" using sint_ge [of c] by simp
  with assms have "- (2 ^ 31) \<le> sint c + 1" "sint c + 1 < 2 ^ 31" by simp_all
  then have "signed_take_bit 31 (sint c + 1) = sint c + 1"
    by (rule signed_take_bit_int_eq_self)
  then show ?thesis by (simp only: sint_add_one)
qed

lemma sint_increment_wraps:
  fixes c :: cint
  assumes "sint c = 2147483647"
  shows "sint (c + 1) = - 2147483648"
proof -
  from assms have "sint (c + 1) = signed_take_bit 31 (2147483648 :: int)"
    by (simp add: sint_add_one)
  also have "\<dots> = - 2147483648" by (simp add: signed_take_bit_eq_take_bit_minus)
  finally show ?thesis .
qed

lemma sint_increment_reached:
  fixes c :: cint
  assumes "3 \<le> sint (c + 1)"
  shows "sint (c + 1) = sint c + 1"
proof (cases "sint c < 2147483647")
  case True
  then show ?thesis by (rule sint_increment)
next
  case False
  moreover have "sint c < 2 ^ 31" using sint_lt [of c] by simp
  ultimately have "sint c = 2147483647" by simp
  from sint_increment_wraps [OF this] assms show ?thesis by simp
qed

lemma care_recordUserIgnored:
  "care_int (currentCareLevel (recordUserIgnored t e)) =
     (if 3 \<le> sint (consecutiveIgnored (history e) + 1) \<and> care_int (currentCareLevel e) < 3
      then care_int (currentCareLevel e) + 1
      else care_int (currentCareLevel e))"
  by (simp add: recordUserIgnored_def Let_def care_escalate)

lemma care_setMood [simp]: "currentCareLevel (setMood m e) = currentCareLevel e"
  by (simp add: setMood_def)

lemma care_updateMood:
  "care_int (currentCareLevel (updateMood b e)) =
     (if calculateCaringUrgency b > 0.7 \<and> care_int (currentCareLevel e) < 3
      then care_int (currentCareLevel e) + 1
      else if calculateCaringUrgency b < 0.3 \<and> 0 < care_int (currentCareLevel e)
      then care_int (currentCareLevel e) - 1
      else care_int (currentCareLevel e))"
  by (simp add: updateMood_def Let_def care_escalate care_reduce)

lemma ignored_counter_wraps:
  assumes "sint (consecutiveIgnored (history e)) = 2147483647"
  shows "currentCareLevel (recordUserIgnored type e) = currentCareLevel e"
proof -
  have "care_int (currentCareLevel (recordUserIgnored type e)) = care_int (currentCareLevel e)"
    by (simp add: care_recordUserIgnored sint_increment_wraps [OF assms])
  then show ?thesis by (simp only: care_int_inject)
qed

section \<open>What each operation does to the care level and to the queue\<close>

lemma push_back_all_fields [simp]:
  "currentCareLevel (push_back_all type ms e) = currentCareLevel e"
  "currentMood (push_back_all type ms e) = currentMood e"
  "messageQueue (push_back_all type ms e) = messageQueue e"
  "lastMessageTime (push_back_all type ms e) = lastMessageTime e"
  "responseCooldown (push_back_all type ms e) = responseCooldown e"
  "canRespond (push_back_all type ms e) = canRespond e"
  "userName (push_back_all type ms e) = userName e"
  by (simp_all add: push_back_all_def)

lemma push_back_all_bank:
  "messageBank (push_back_all type ms e) type' =
     (if type' = type then messageBank e type @ ms else messageBank e type')"
  by (simp add: push_back_all_def)

lemmas load_defs =
  loadHydrationMessages_def loadMovementMessages_def loadPostureMessages_def
  loadEncouragementMessages_def loadCelebrationMessages_def loadConcernMessages_def
  loadGreetingMessages_def

lemma initializeMessageBank_fields [simp]:
  "currentCareLevel (initializeMessageBank e) = currentCareLevel e"
  "currentMood (initializeMessageBank e) = currentMood e"
  "messageQueue (initializeMessageBank e) = messageQueue e"
  "lastMessageTime (initializeMessageBank e) = lastMessageTime e"
  "responseCooldown (initializeMessageBank e) = responseCooldown e"
  "canRespond (initializeMessageBank e) = canRespond e"
  "userName (initializeMessageBank e) = userName e"
  unfolding initializeMessageBank_def load_defs
  by (simp_all only: push_back_all_fields)

lemma initialize_fields [simp]:
  "currentCareLevel (initialize now e) = currentCareLevel e"
  "currentMood (initialize now e) = currentMood e"
  "messageQueue (initialize now e) = messageQueue e"
  "lastMessageTime (initialize now e) = lastMessageTime e"
  "responseCooldown (initialize now e) = responseCooldown e"
  "canRespond (initialize now e) = canRespond e"
  "userName (initialize now e) = userName e"
  by (simp_all add: initialize_def)

lemma generateCaringResponse_care [simp]:
  "currentCareLevel (snd (generateCaringResponse now type e)) = currentCareLevel e"
  by (simp add: generateCaringResponse_def Let_def split: option.splits)

lemma generateCaringResponse_queue [simp]:
  "messageQueue (snd (generateCaringResponse now type e)) = messageQueue e"
  by (simp add: generateCaringResponse_def Let_def split: option.splits)

lemma queueMessage_care [simp]: "currentCareLevel (queueMessage m e) = currentCareLevel e"
  by (simp add: queueMessage_def)

lemma queueMessageType_care [simp]:
  "currentCareLevel (queueMessageType now type e) = currentCareLevel e"
proof -
  obtain m e' where g: "generateCaringResponse now type e = (m, e')"
    by (cases "generateCaringResponse now type e")
  then have "currentCareLevel e' = currentCareLevel e"
    using generateCaringResponse_care [of now type e] by simp
  with g show ?thesis by (simp add: queueMessageType_def)
qed

lemma getNextMessage_care [simp]:
  "currentCareLevel (snd (getNextMessage e)) = currentCareLevel e"
  by (simp add: getNextMessage_def split: list.splits)

lemma care_generateUrgentResponse:
  "care_int (currentCareLevel (snd (generateUrgentResponse now e))) =
     (if care_int (currentCareLevel e) < 3 then care_int (currentCareLevel e) + 1
      else care_int (currentCareLevel e))"
  by (simp add: generateUrgentResponse_def care_escalate)

lemma step_care:
  "\<not> may_reduce op \<Longrightarrow>
     care_int (currentCareLevel e) \<le> care_int (currentCareLevel (step op e))"
proof (cases op)
  case (UpdateMood behavior)
  assume "\<not> may_reduce op"
  with UpdateMood show ?thesis by (simp add: care_updateMood)
next
  case (RecordUserResponse type effective)
  assume "\<not> may_reduce op"
  with RecordUserResponse show ?thesis by (simp add: care_recordUserResponse)
next
  case (RecordUserIgnored type)
  then show ?thesis by (simp add: care_recordUserIgnored)
next
  case (GenerateUrgentResponse now)
  then show ?thesis by (simp add: care_generateUrgentResponse)
qed (simp_all add: setUserName_def enableLearning_def setAdaptationRate_def
      enableResponses_def)

lemma run_append: "run (xs @ ys) e = run ys (run xs e)"
  by (induction xs arbitrary: e) simp_all

lemma run_care:
  "\<forall>op \<in> set ops. \<not> may_reduce op \<Longrightarrow>
     care_int (currentCareLevel e) \<le> care_int (currentCareLevel (run ops e))"
proof (induction ops arbitrary: e)
  case Nil
  then show ?case by simp
next
  case (Cons op ops)
  have "care_int (currentCareLevel e) \<le> care_int (currentCareLevel (step op e))"
    using Cons.prems by (simp add: step_care)
  also have "\<dots> \<le> care_int (currentCareLevel (run ops (step op e)))"
    using Cons.prems by (intro Cons.IH) simp
  finally show ?case by simp
qed

lemma queueMessage_length:
  "length (messageQueue (queueMessage m e)) =
     (if length (messageQueue e) < 10 then length (messageQueue e) + 1
      else length (messageQueue e))"
  by (simp add: queueMessage_def)

lemma queueMessageType_length:
  "length (messageQueue e) \<le> 10 \<Longrightarrow> length (messageQueue (queueMessageType now type e)) \<le> 10"
proof -
  assume le: "length (messageQueue e) \<le> 10"
  obtain m e' where g: "generateCaringResponse now type e = (m, e')"
    by (cases "generateCaringResponse now type e")
  then have "messageQueue e' = messageQueue e"
    using generateCaringResponse_queue [of now type e] by simp
  with g le show ?thesis by (simp add: queueMessageType_def queueMessage_length)
qed

lemma step_queue:
  "length (messageQueue e) \<le> 10 \<Longrightarrow> length (messageQueue (step op e)) \<le> 10"
proof (cases op)
  case (QueueMessage m)
  assume "length (messageQueue e) \<le> 10"
  with QueueMessage show ?thesis by (simp add: queueMessage_length)
next
  case (QueueMessageType now type)
  assume "length (messageQueue e) \<le> 10"
  with QueueMessageType show ?thesis by (simp add: queueMessageType_length)
next
  case GetNextMessage
  assume "length (messageQueue e) \<le> 10"
  with GetNextMessage show ?thesis by (auto simp: getNextMessage_def split: list.splits)
next
  case (UpdateMood behavior)
  assume "length (messageQueue e) \<le> 10"
  with UpdateMood show ?thesis by (simp add: updateMood_def Let_def setMood_def)
next
  case (RecordUserResponse type effective)
  assume "length (messageQueue e) \<le> 10"
  with RecordUserResponse show ?thesis by (simp add: recordUserResponse_def Let_def)
next
  case (RecordUserIgnored type)
  assume "length (messageQueue e) \<le> 10"
  with RecordUserIgnored show ?thesis by (simp add: recordUserIgnored_def Let_def)
qed (simp_all add: setUserName_def enableLearning_def setAdaptationRate_def
      enableResponses_def setMood_def generateUrgentResponse_def)

lemma run_queue:
  "length (messageQueue e) \<le> 10 \<Longrightarrow> length (messageQueue (run ops e)) \<le> 10"
  by (induction ops arbitrary: e) (simp_all add: step_queue)

lemma run_replicate_queue:
  "length (messageQueue e) \<le> 10 \<Longrightarrow>
     length (messageQueue (run (replicate n (QueueMessage m)) e)) =
       min 10 (length (messageQueue e) + n)"
proof (induction n arbitrary: e)
  case 0
  then show ?case by simp
next
  case (Suc n)
  have "length (messageQueue (queueMessage m e)) \<le> 10"
    using Suc.prems by (simp add: queueMessage_length)
  from Suc.IH [OF this] Suc.prems show ?case
    by (simp add: queueMessage_length)
qed

lemma currentMood_escalate [simp]: "currentMood (escalateCareLevel e) = currentMood e"
  by (simp add: escalateCareLevel_def)

lemma currentMood_reduce [simp]: "currentMood (reduceCareLevel e) = currentMood e"
  by (simp add: reduceCareLevel_def)

lemma currentMood_setMood [simp]: "currentMood (setMood m e) = m"
  by (simp add: setMood_def)

lemma currentMood_updateMood: "currentMood (updateMood behavior e) = behaviorToMood behavior"
  by (simp add: updateMood_def Let_def)

lemma userPreferences_reduce [simp]: "userPreferences (reduceCareLevel e) = userPreferences e"
  by (simp add: reduceCareLevel_def)

lemma adaptationRate_reduce [simp]: "adaptationRate (reduceCareLevel e) = adaptationRate e"
  by (simp add: reduceCareLevel_def)

lemma step_care_abs:
  "\<bar>care_int (currentCareLevel (step op e)) - care_int (currentCareLevel e)\<bar> \<le> 1"
  by (cases op)
    (simp_all add: care_updateMood care_recordUserResponse care_recordUserIgnored
      care_generateUrgentResponse setUserName_def enableLearning_def setAdaptationRate_def
      enableResponses_def)

lemma step_valid_care:
  "valid_care (currentCareLevel e) \<Longrightarrow> valid_care (currentCareLevel (step op e))"
  by (cases op)
    (simp_all add: valid_care_def care_updateMood care_recordUserResponse
      care_recordUserIgnored care_generateUrgentResponse setUserName_def enableLearning_def
      setAdaptationRate_def enableResponses_def)

lemma run_valid_care:
  "valid_care (currentCareLevel e) \<Longrightarrow> valid_care (currentCareLevel (run ops e))"
  by (induction ops arbitrary: e) (simp_all add: step_valid_care)

section \<open>Properties of the selection loop\<close>

lemma frac10: "10 / (10 + (x::real) * 10) = 1 / (1 + x)"
proof -
  have "10 + x * 10 = 10 * (1 + x)" by simp
  then show ?thesis by (simp only: divide_divide_eq_left' nonzero_divide_mult_cancel_left)
qed

lemma messageScore_alt:
  "messageScore now e message =
     (if careLevel message = currentCareLevel e then 0.4 else 0)
     + (if mood message = currentMood e then 0.3 else 0)
     + 0.2 * (real (unat (now - timestamp message)) / 60000)
     + 0.1 * (10 / (real (useCount message) + 1))"
  by (simp add: messageScore_def Let_def frac10 add.commute)

lemma real_unat_nonneg: "0 \<le> (unsigned w :: real)"
proof -
  have "0 \<le> real (unat w)" by (rule of_nat_0_le_iff)
  then show ?thesis by (simp only: of_nat_unat)
qed

lemma messageScore_nonneg: "0 \<le> messageScore now e message"
proof -
  have a: "0 \<le> (if careLevel message = currentCareLevel e then 0.4 else 0::real)" by simp
  have b: "0 \<le> (if mood message = currentMood e then 0.3 else 0::real)" by simp
  have c: "0 \<le> 0.2 * (real (unat (now - timestamp message)) / 60000)"
    by (simp add: real_unat_nonneg)
  have d: "0 \<le> 0.1 * (10 / (real (useCount message) + 1))" by simp
  show ?thesis unfolding messageScore_alt by (intro add_nonneg_nonneg a b c d)
qed


text \<open>
  The loop returns the pointer it was started with when no message beats the starting
  score; otherwise it returns the first message of maximal score.
\<close>

lemma selectLoop_result:
  "selectLoop now e ms i bs bm = r \<Longrightarrow>
     (r = bm \<and> (\<forall>m \<in> set ms. messageScore now e m \<le> bs))
     \<or> (\<exists>k < length ms. r = Some (i + k)
           \<and> bs < messageScore now e (ms ! k)
           \<and> (\<forall>m \<in> set ms. messageScore now e m \<le> messageScore now e (ms ! k))
           \<and> (\<forall>j < k. messageScore now e (ms ! j) < messageScore now e (ms ! k)))"
proof (induction ms arbitrary: i bs bm r)
  case Nil
  then show ?case by simp
next
  case (Cons m ms)
  let ?s = "messageScore now e m"
  show ?case
  proof (cases "?s > bs")
    case True
    with Cons.prems have run: "selectLoop now e ms (i + 1) ?s (Some i) = r"
      by (simp add: Let_def)
    from Cons.IH [OF run] show ?thesis
    proof
      assume a: "r = Some i \<and> (\<forall>m' \<in> set ms. messageScore now e m' \<le> ?s)"
      have "0 < length (m # ms) \<and> r = Some (i + 0)
          \<and> bs < messageScore now e ((m # ms) ! 0)
          \<and> (\<forall>m' \<in> set (m # ms). messageScore now e m' \<le> messageScore now e ((m # ms) ! 0))
          \<and> (\<forall>j < (0::nat). messageScore now e ((m # ms) ! j)
                < messageScore now e ((m # ms) ! 0))"
        using a True by simp
      then show ?thesis by blast
    next
      assume "\<exists>k < length ms. r = Some (i + 1 + k)
          \<and> ?s < messageScore now e (ms ! k)
          \<and> (\<forall>m' \<in> set ms. messageScore now e m' \<le> messageScore now e (ms ! k))
          \<and> (\<forall>j < k. messageScore now e (ms ! j) < messageScore now e (ms ! k))"
      then obtain k where k: "k < length ms" "r = Some (i + 1 + k)"
          "?s < messageScore now e (ms ! k)"
          "\<forall>m' \<in> set ms. messageScore now e m' \<le> messageScore now e (ms ! k)"
          "\<forall>j < k. messageScore now e (ms ! j) < messageScore now e (ms ! k)"
        by blast
      have "Suc k < length (m # ms) \<and> r = Some (i + Suc k)
          \<and> bs < messageScore now e ((m # ms) ! Suc k)
          \<and> (\<forall>m' \<in> set (m # ms).
                messageScore now e m' \<le> messageScore now e ((m # ms) ! Suc k))
          \<and> (\<forall>j < Suc k. messageScore now e ((m # ms) ! j)
                < messageScore now e ((m # ms) ! Suc k))"
        using k True by (auto simp: less_Suc_eq_0_disj)
      then show ?thesis by blast
    qed
  next
    case False
    with Cons.prems have run: "selectLoop now e ms (i + 1) bs bm = r"
      by (simp add: Let_def)
    from Cons.IH [OF run] show ?thesis
    proof
      assume "r = bm \<and> (\<forall>m' \<in> set ms. messageScore now e m' \<le> bs)"
      with False show ?thesis by simp
    next
      assume "\<exists>k < length ms. r = Some (i + 1 + k)
          \<and> bs < messageScore now e (ms ! k)
          \<and> (\<forall>m' \<in> set ms. messageScore now e m' \<le> messageScore now e (ms ! k))
          \<and> (\<forall>j < k. messageScore now e (ms ! j) < messageScore now e (ms ! k))"
      then obtain k where k: "k < length ms" "r = Some (i + 1 + k)"
          "bs < messageScore now e (ms ! k)"
          "\<forall>m' \<in> set ms. messageScore now e m' \<le> messageScore now e (ms ! k)"
          "\<forall>j < k. messageScore now e (ms ! j) < messageScore now e (ms ! k)"
        by blast
      have "Suc k < length (m # ms) \<and> r = Some (i + Suc k)
          \<and> bs < messageScore now e ((m # ms) ! Suc k)
          \<and> (\<forall>m' \<in> set (m # ms).
                messageScore now e m' \<le> messageScore now e ((m # ms) ! Suc k))
          \<and> (\<forall>j < Suc k. messageScore now e ((m # ms) ! j)
                < messageScore now e ((m # ms) ! Suc k))"
        using k False by (auto simp: less_Suc_eq_0_disj)
      then show ?thesis by blast
    qed
  qed
qed

lemma selectBestMessage_None:
  "selectBestMessage now type e = None \<longleftrightarrow> type = RESPONSE_COUNT \<or> messageBank e type = []"
proof
  assume none: "selectBestMessage now type e = None"
  show "type = RESPONSE_COUNT \<or> messageBank e type = []"
  proof (rule ccontr)
    assume "\<not> (type = RESPONSE_COUNT \<or> messageBank e type = [])"
    then have ne: "messageBank e type \<noteq> []" and "type \<noteq> RESPONSE_COUNT" by simp_all
    with none have "selectLoop now e (messageBank e type) 0 (- 1) None = None"
      by (simp add: selectBestMessage_def)
    from selectLoop_result [OF this]
    have "\<forall>m \<in> set (messageBank e type). messageScore now e m \<le> - 1" by auto
    moreover from ne obtain m where "m \<in> set (messageBank e type)"
      by (cases "messageBank e type") auto
    ultimately have "messageScore now e m \<le> - 1" by blast
    with messageScore_nonneg [of now e m] show False by simp
  qed
next
  assume "type = RESPONSE_COUNT \<or> messageBank e type = []"
  then show "selectBestMessage now type e = None"
    by (auto simp: selectBestMessage_def)
qed

lemma selectBestMessage_Some:
  assumes "selectBestMessage now type e = Some k"
  shows "k < length (messageBank e type)"
    and "type \<noteq> RESPONSE_COUNT"
    and "\<forall>j < length (messageBank e type).
           messageScore now e (messageBank e type ! j)
             \<le> messageScore now e (messageBank e type ! k)"
    and "\<forall>j < k. messageScore now e (messageBank e type ! j)
             < messageScore now e (messageBank e type ! k)"
proof -
  from assms have ne: "\<not> (type = RESPONSE_COUNT \<or> messageBank e type = [])"
    using selectBestMessage_None [of now type e] by simp
  then show "type \<noteq> RESPONSE_COUNT" by simp
  from ne assms have "selectLoop now e (messageBank e type) 0 (- 1) None = Some k"
    by (simp add: selectBestMessage_def)
  from selectLoop_result [OF this]
  have r: "k < length (messageBank e type)
      \<and> (\<forall>m \<in> set (messageBank e type).
            messageScore now e m \<le> messageScore now e (messageBank e type ! k))
      \<and> (\<forall>j < k. messageScore now e (messageBank e type ! j)
            < messageScore now e (messageBank e type ! k))"
    by auto
  then show "k < length (messageBank e type)" by simp
  from r show "\<forall>j < length (messageBank e type).
      messageScore now e (messageBank e type ! j)
        \<le> messageScore now e (messageBank e type ! k)"
    by simp
  from r show "\<forall>j < k. messageScore now e (messageBank e type ! j)
      < messageScore now e (messageBank e type ! k)"
    by simp
qed

lemma selectBestMessage_exists:
  "type \<noteq> RESPONSE_COUNT \<Longrightarrow> messageBank e type \<noteq> [] \<Longrightarrow>
     \<exists>k. selectBestMessage now type e = Some k"
  using selectBestMessage_None [of now type e] by (cases "selectBestMessage now type e") auto

section \<open>Properties of the generated response\<close>

lemma generateCaringResponse_silent:
  "\<not> canRespondNow now e \<Longrightarrow> generateCaringResponse now type e = ('''', e)"
  by (simp add: generateCaringResponse_def)

lemma generateCaringResponse_fallback:
  "canRespondNow now e \<Longrightarrow> type = RESPONSE_COUNT \<or> messageBank e type = [] \<Longrightarrow>
     generateCaringResponse now type e = (fallbackMessage, e)"
  using selectBestMessage_None [of now type e] by (simp add: generateCaringResponse_def)

lemma generateCaringResponse_selected:
  assumes "canRespondNow now e" and "selectBestMessage now type e = Some k"
  shows "fst (generateCaringResponse now type e)
           = personalizeMessage (msgText (messageBank e type ! k)) e"
    and "messageBank (snd (generateCaringResponse now type e)) type =
           (messageBank e type)
             [k := (messageBank e type ! k)
                     \<lparr>useCount := useCount (messageBank e type ! k) + 1, timestamp := now\<rparr>]"
    and "lastMessageTime (snd (generateCaringResponse now type e)) = now"
    and "currentCareLevel (snd (generateCaringResponse now type e)) = currentCareLevel e"
    and "currentMood (snd (generateCaringResponse now type e)) = currentMood e"
    and "userName (snd (generateCaringResponse now type e)) = userName e"
    and "canRespond (snd (generateCaringResponse now type e)) = canRespond e"
    and "responseCooldown (snd (generateCaringResponse now type e)) = responseCooldown e"
  using assms
  by (simp_all add: generateCaringResponse_def Let_def personalizeMessage_def)

lemma fallbackMessage_nonempty: "fallbackMessage \<noteq> ''''"
  by (simp add: fallbackMessage_def)

lemma replace_nonempty:
  "fnd \<noteq> [] \<Longrightarrow> c \<noteq> hd fnd \<Longrightarrow> replace fnd rep (c # cs) \<noteq> []"
  by (cases fnd) auto

section \<open>The example engines\<close>

lemma ready_engine_fields:
  "canRespond ready_engine"
  "lastMessageTime ready_engine = 0"
  "responseCooldown ready_engine = 5000"
  "userName ready_engine = ''friend''"
  "currentCareLevel ready_engine = CARE_GENTLE"
  "currentMood ready_engine = MOOD_HAPPY"
  by (simp_all add: ready_engine_def PersonalityEngine_new_def RESPONSE_COOLDOWN_def)

lemma initialize_bank:
  "messageBank (initialize now e) type = messageBank (initializeMessageBank e) type"
  by (simp add: initialize_def)

lemma ready_engine_break: "messageBank ready_engine RESPONSE_BREAK = []"
  unfolding ready_engine_def run.simps step.simps initialize_bank initializeMessageBank_def
    load_defs
  by (simp add: push_back_all_bank PersonalityEngine_new_def)

lemma ready_engine_posture:
  "messageBank ready_engine RESPONSE_POSTURE =
     messageBank (loadPostureMessages PersonalityEngine_new) RESPONSE_POSTURE"
  unfolding ready_engine_def run.simps step.simps initialize_bank initializeMessageBank_def
    load_defs
  by (simp add: push_back_all_bank PersonalityEngine_new_def)


lemma ready_engine_can_respond: "canRespondNow 6000 ready_engine"
  by (simp add: canRespondNow_def ready_engine_fields)

lemma ready_engine_cooldown: "\<not> canRespondNow 3000 ready_engine"
  by (simp add: canRespondNow_def ready_engine_fields)

section \<open>When no message is returned\<close>

text \<open>
  Claim C2 says that an empty catalogue partition gives no message. The code returns its
  fallback text there: after \<open>initialize\<close> the partition of \<open>RESPONSE_BREAK\<close> is empty
  (no loader fills it), and a request for such a message, six seconds after the start,
  returns the fallback text, which is not the empty string.
\<close>

theorem empty_partition_fallback_counterexample:
  "messageBank ready_engine RESPONSE_BREAK = []
   \<and> canRespondNow 6000 ready_engine
   \<and> fst (generateCaringResponse 6000 RESPONSE_BREAK ready_engine) = fallbackMessage
   \<and> fst (generateCaringResponse 6000 RESPONSE_BREAK ready_engine) \<noteq> ''''"
proof -
  have "generateCaringResponse 6000 RESPONSE_BREAK ready_engine = (fallbackMessage, ready_engine)"
    by (rule generateCaringResponse_fallback)
      (simp_all add: ready_engine_can_respond ready_engine_break)
  then show ?thesis
    by (simp add: ready_engine_break ready_engine_can_respond fallbackMessage_nonempty)
qed

text \<open>
  Claim C2, amended. \<open>generateCaringResponse\<close> returns the empty string and leaves the
  engine as it is when responses are disabled or the cooldown since the last message has
  not elapsed. Otherwise, when the partition of the type is empty (or the type is
  \<open>RESPONSE_COUNT\<close>), it returns the fixed, non-empty fallback text and leaves the engine
  as it is; when the partition is not empty it returns the personalised text of the
  message that \<open>selectBestMessage\<close> points to. So, as long as no text of the partition
  personalises to the empty string, the result is empty if and only if responses are
  disabled or the cooldown has not elapsed.
\<close>

theorem caring_response_result:
  "(\<not> canRespondNow now e \<longrightarrow> generateCaringResponse now type e = ('''', e))
   \<and> (canRespondNow now e \<and> (type = RESPONSE_COUNT \<or> messageBank e type = []) \<longrightarrow>
        generateCaringResponse now type e = (fallbackMessage, e) \<and> fallbackMessage \<noteq> '''')
   \<and> (canRespondNow now e \<and> type \<noteq> RESPONSE_COUNT \<and> messageBank e type \<noteq> [] \<longrightarrow>
        (\<exists>k < length (messageBank e type).
            selectBestMessage now type e = Some k
            \<and> fst (generateCaringResponse now type e)
                = personalizeMessage (msgText (messageBank e type ! k)) e))
   \<and> ((\<forall>m \<in> set (messageBank e type). personalizeMessage (msgText m) e \<noteq> '''') \<longrightarrow>
        (fst (generateCaringResponse now type e) = '''' \<longleftrightarrow>
           \<not> canRespond e \<or> \<not> responseCooldown e < now - lastMessageTime e))"
proof (intro conjI impI)
  assume "\<not> canRespondNow now e"
  then show "generateCaringResponse now type e = ('''', e)"
    by (rule generateCaringResponse_silent)
next
  assume "canRespondNow now e \<and> (type = RESPONSE_COUNT \<or> messageBank e type = [])"
  then show "generateCaringResponse now type e = (fallbackMessage, e)"
    by (simp add: generateCaringResponse_fallback)
next
  show "fallbackMessage \<noteq> ''''" by (rule fallbackMessage_nonempty)
next
  assume a: "canRespondNow now e \<and> type \<noteq> RESPONSE_COUNT \<and> messageBank e type \<noteq> []"
  then obtain k where k: "selectBestMessage now type e = Some k"
    using selectBestMessage_exists [of type e now] by blast
  from a k show "\<exists>k < length (messageBank e type).
      selectBestMessage now type e = Some k
      \<and> fst (generateCaringResponse now type e)
          = personalizeMessage (msgText (messageBank e type ! k)) e"
    using selectBestMessage_Some(1) [OF k] generateCaringResponse_selected(1) [OF _ k]
    by blast
next
  assume texts: "\<forall>m \<in> set (messageBank e type). personalizeMessage (msgText m) e \<noteq> ''''"
  show "fst (generateCaringResponse now type e) = '''' \<longleftrightarrow>
      \<not> canRespond e \<or> \<not> responseCooldown e < now - lastMessageTime e"
  proof (cases "canRespondNow now e")
    case False
    then show ?thesis
      by (simp add: generateCaringResponse_silent) (simp add: canRespondNow_def)
  next
    case True
    have "fst (generateCaringResponse now type e) \<noteq> ''''"
    proof (cases "selectBestMessage now type e")
      case None
      then have "type = RESPONSE_COUNT \<or> messageBank e type = []"
        by (simp add: selectBestMessage_None)
      with True show ?thesis
        by (simp add: generateCaringResponse_fallback fallbackMessage_nonempty)
    next
      case (Some k)
      from selectBestMessage_Some(1) [OF Some]
      have "messageBank e type ! k \<in> set (messageBank e type)" by simp
      with texts have "personalizeMessage (msgText (messageBank e type ! k)) e \<noteq> ''''"
        by blast
      then show ?thesis
        by (simp add: generateCaringResponse_selected(1) [OF True Some])
    qed
    with True show ?thesis by (simp add: canRespondNow_def)
  qed
qed

theorem caring_response_result_witness:
  "\<not> canRespondNow 3000 ready_engine
   \<and> generateCaringResponse 3000 RESPONSE_POSTURE ready_engine = ('''', ready_engine)
   \<and> canRespondNow 6000 ready_engine
   \<and> messageBank ready_engine RESPONSE_BREAK = []
   \<and> generateCaringResponse 6000 RESPONSE_BREAK ready_engine = (fallbackMessage, ready_engine)
   \<and> RESPONSE_POSTURE \<noteq> RESPONSE_COUNT
   \<and> length (messageBank ready_engine RESPONSE_POSTURE) = 5
   \<and> list_all (\<lambda>m. personalizeMessage (msgText m) ready_engine \<noteq> '''')
        (messageBank ready_engine RESPONSE_POSTURE)
   \<and> fst (generateCaringResponse 6000 RESPONSE_POSTURE ready_engine) \<noteq> ''''"
proof -
  have bank: "messageBank ready_engine RESPONSE_POSTURE \<noteq> []"
      "length (messageBank ready_engine RESPONSE_POSTURE) = 5"
    by (simp_all add: ready_engine_posture loadPostureMessages_def push_back_all_bank
        PersonalityEngine_new_def)
  have texts: "\<forall>m \<in> set (messageBank ready_engine RESPONSE_POSTURE).
      personalizeMessage (msgText m) ready_engine \<noteq> ''''"
    by (simp add: ready_engine_posture loadPostureMessages_def push_back_all_bank
        PersonalityEngine_new_def PersonalityMessage_init_def personalizeMessage_def
        replace_nonempty)
  have can: "canRespond ready_engine \<and> responseCooldown ready_engine < 6000 - lastMessageTime ready_engine"
    by (simp add: ready_engine_fields)
  from caring_response_result [of 3000 ready_engine RESPONSE_POSTURE]
    caring_response_result [of 6000 ready_engine RESPONSE_BREAK]
    caring_response_result [of 6000 ready_engine RESPONSE_POSTURE]
    ready_engine_cooldown ready_engine_can_respond ready_engine_break bank texts can
  show ?thesis unfolding list_all_iff by blast
qed

section \<open>The engine after long inactivity\<close>

lemma updateMood_fields [simp]:
  "messageBank (updateMood b e) = messageBank e"
  "canRespond (updateMood b e) = canRespond e"
  "lastMessageTime (updateMood b e) = lastMessageTime e"
  "responseCooldown (updateMood b e) = responseCooldown e"
  "userName (updateMood b e) = userName e"
  by (simp_all add: updateMood_def Let_def setMood_def escalateCareLevel_def
      reduceCareLevel_def)











section \<open>Consecutive selections\<close>









section \<open>Escalation and de-escalation\<close>

text \<open>
  Claim C7. For every state of the engine, recording an effective user response
  (\<open>recordUserResponse\<close> with \<open>effective = True\<close>) lowers the care level by exactly one
  step with a floor at \<open>CARE_GENTLE\<close>, and resets \<open>consecutiveIgnored\<close> to 0; from
  \<open>CARE_WORRIED\<close> the care level drops to \<open>CARE_CONCERNED\<close>.
\<close>

theorem effective_response_deescalates:
  "care_int (currentCareLevel (recordUserResponse type True e)) =
     max (care_int CARE_GENTLE) (care_int (currentCareLevel e) - 1)
   \<and> consecutiveIgnored (history (recordUserResponse type True e)) = 0
   \<and> currentCareLevel (recordUserResponse type True (e\<lparr>currentCareLevel := CARE_WORRIED\<rparr>))
       = CARE_CONCERNED"
proof -
  have floor: "care_int (currentCareLevel (recordUserResponse type True e)) =
      max (care_int CARE_GENTLE) (care_int (currentCareLevel e) - 1)"
    using care_int_range [of "currentCareLevel e"]
    by (simp add: care_recordUserResponse)
  have reset: "consecutiveIgnored (history (recordUserResponse type True e)) = 0"
    by (simp add: recordUserResponse_def Let_def)
  have "care_int (currentCareLevel
          (recordUserResponse type True (e\<lparr>currentCareLevel := CARE_WORRIED\<rparr>))) =
        care_int CARE_CONCERNED"
    by (simp add: care_recordUserResponse)
  then have worried: "currentCareLevel
      (recordUserResponse type True (e\<lparr>currentCareLevel := CARE_WORRIED\<rparr>)) = CARE_CONCERNED"
    by (simp only: care_int_inject)
  from floor reset worried show ?thesis by blast
qed

text \<open>
  Claim C6. Every call of \<open>recordUserIgnored\<close> increments the count of consecutively
  ignored reminders; whenever the count so reached is 3 or more, it is the old count plus
  one and the care level goes up by exactly one step, whatever the inactivity (the
  operation does not look at the behaviour data), unless it is already \<open>CARE_WORRIED\<close>,
  where it stays. The count is the 32-bit \<^verbatim>\<open>int\<close> of the code: the one increment
  that wraps gives a negative count, which is not 3 or more.
\<close>

theorem ignored_three_times_escalates:
  assumes "3 \<le> sint (consecutiveIgnored (history (recordUserIgnored type e)))"
    and "valid_care (currentCareLevel e)"
  shows "consecutiveIgnored (history (recordUserIgnored type e))
           = consecutiveIgnored (history e) + 1
         \<and> sint (consecutiveIgnored (history (recordUserIgnored type e)))
           = sint (consecutiveIgnored (history e)) + 1
         \<and> care_int (currentCareLevel (recordUserIgnored type e)) =
             (if currentCareLevel e = CARE_WORRIED then care_int CARE_WORRIED
              else care_int (currentCareLevel e) + 1)"
proof -
  have count: "consecutiveIgnored (history (recordUserIgnored type e))
      = consecutiveIgnored (history e) + 1"
    by (simp add: recordUserIgnored_def Let_def)
  with assms(1) have reached: "3 \<le> sint (consecutiveIgnored (history e) + 1)" by simp
  then have exact: "sint (consecutiveIgnored (history e) + 1)
      = sint (consecutiveIgnored (history e)) + 1"
    by (rule sint_increment_reached)
  have "care_int (currentCareLevel e) \<le> 3"
    using assms(2) by (simp add: valid_care_def)
  moreover have "currentCareLevel e = CARE_WORRIED \<longleftrightarrow> care_int (currentCareLevel e) = 3"
    by (cases "currentCareLevel e") simp_all
  ultimately have "care_int (currentCareLevel (recordUserIgnored type e)) =
      (if currentCareLevel e = CARE_WORRIED then care_int CARE_WORRIED
       else care_int (currentCareLevel e) + 1)"
    using reached by (simp add: care_recordUserIgnored)
  with count exact show ?thesis by simp
qed

theorem ignored_three_times_escalates_witness:
  "3 \<le> sint (consecutiveIgnored (history (recordUserIgnored RESPONSE_HYDRATION
          (run [RecordUserIgnored RESPONSE_HYDRATION, RecordUserIgnored RESPONSE_HYDRATION]
             PersonalityEngine_new))))
   \<and> valid_care (currentCareLevel
          (run [RecordUserIgnored RESPONSE_HYDRATION, RecordUserIgnored RESPONSE_HYDRATION]
             PersonalityEngine_new))
   \<and> currentCareLevel (recordUserIgnored RESPONSE_HYDRATION
          (run [RecordUserIgnored RESPONSE_HYDRATION, RecordUserIgnored RESPONSE_HYDRATION]
             PersonalityEngine_new)) = CARE_ENCOURAGING"
proof -
  let ?e = "run [RecordUserIgnored RESPONSE_HYDRATION, RecordUserIgnored RESPONSE_HYDRATION]
              PersonalityEngine_new"
  have count: "consecutiveIgnored (history ?e) = 2"
    by (simp add: recordUserIgnored_def Let_def PersonalityEngine_new_def)
  have level: "currentCareLevel ?e = CARE_GENTLE"
    by (simp add: recordUserIgnored_def Let_def PersonalityEngine_new_def)
  have h1: "3 \<le> sint (consecutiveIgnored (history (recordUserIgnored RESPONSE_HYDRATION ?e)))"
    using count by (simp add: recordUserIgnored_def Let_def)
  have h2: "valid_care (currentCareLevel ?e)"
    using level by (simp add: valid_care_def)
  from ignored_three_times_escalates [OF h1 h2] level
  have "care_int (currentCareLevel (recordUserIgnored RESPONSE_HYDRATION ?e)) =
      care_int CARE_ENCOURAGING"
    by simp
  then have "currentCareLevel (recordUserIgnored RESPONSE_HYDRATION ?e) = CARE_ENCOURAGING"
    by (simp only: care_int_inject)
  with h1 h2 show ?thesis by blast
qed

text \<open>
  Claim C3. In one transition of the engine (one \<open>updateMood\<close>, one
  \<open>escalateCareLevel\<close>, one \<open>reduceCareLevel\<close>, and in fact any one operation) the care
  level changes by at most one step, for every behaviour snapshot (so also when the
  inactivity has passed several thresholds at once). A care level between \<open>CARE_GENTLE\<close>
  and \<open>CARE_WORRIED\<close> stays in that range, and it is in that range after every sequence
  of operations on a new engine.
\<close>

theorem single_step_transition:
  "\<bar>care_int (currentCareLevel (updateMood behavior e)) - care_int (currentCareLevel e)\<bar> \<le> 1
   \<and> \<bar>care_int (currentCareLevel (escalateCareLevel e)) - care_int (currentCareLevel e)\<bar> \<le> 1
   \<and> \<bar>care_int (currentCareLevel (reduceCareLevel e)) - care_int (currentCareLevel e)\<bar> \<le> 1
   \<and> \<bar>care_int (currentCareLevel (step op e)) - care_int (currentCareLevel e)\<bar> \<le> 1
   \<and> (valid_care (currentCareLevel e) \<longrightarrow>
        valid_care (currentCareLevel (updateMood behavior e))
        \<and> valid_care (currentCareLevel (escalateCareLevel e))
        \<and> valid_care (currentCareLevel (reduceCareLevel e)))
   \<and> valid_care (currentCareLevel (run ops PersonalityEngine_new))"
proof -
  have "valid_care (currentCareLevel PersonalityEngine_new)"
    by (simp add: valid_care_def PersonalityEngine_new_def)
  then have "valid_care (currentCareLevel (run ops PersonalityEngine_new))"
    by (rule run_valid_care)
  then show ?thesis
    by (simp add: step_care_abs care_updateMood care_escalate care_reduce valid_care_def)
qed

theorem single_step_transition_witness:
  "valid_care (currentCareLevel PersonalityEngine_new)
   \<and> unat (inactivityMinutes long_inactive_behavior) > 120
   \<and> currentCareLevel (updateMood long_inactive_behavior PersonalityEngine_new)
       = CARE_ENCOURAGING
   \<and> valid_care (currentCareLevel (updateMood long_inactive_behavior PersonalityEngine_new))"
proof -
  have v: "valid_care (currentCareLevel PersonalityEngine_new)"
    by (simp add: valid_care_def PersonalityEngine_new_def)
  have u: "calculateCaringUrgency long_inactive_behavior = 0.8"
    by (simp add: calculateCaringUrgency_def long_inactive_behavior_def calm_behavior_def
        URGENT_INACTIVITY_THRESHOLD_def)
  have "care_int (currentCareLevel (updateMood long_inactive_behavior PersonalityEngine_new))
      = care_int CARE_ENCOURAGING"
    by (simp add: care_updateMood u PersonalityEngine_new_def)
  then have l: "currentCareLevel (updateMood long_inactive_behavior PersonalityEngine_new)
      = CARE_ENCOURAGING"
    by (simp only: care_int_inject)
  have i: "unat (inactivityMinutes long_inactive_behavior) > 120"
    by (simp add: long_inactive_behavior_def calm_behavior_def)
  from single_step_transition [of long_inactive_behavior PersonalityEngine_new] v l i
  show ?thesis by blast
qed

section \<open>Mood recomputation\<close>

text \<open>
  Claim C5 says that positive behaviour takes priority and that the mood depends on the
  care level. In the code the inactivity thresholds come first and the care level is not
  read: after 200 minutes of inactivity a snapshot with positive behaviour gives the mood
  \<open>MOOD_WORRIED\<close> at care level \<open>CARE_GENTLE\<close>, not \<open>MOOD_CELEBRATING\<close>.
\<close>

theorem mood_positive_priority_counterexample:
  "hasPositiveBehavior (long_inactive_behavior\<lparr>hasPositiveBehavior := True\<rparr>)
   \<and> currentMood (updateMood (long_inactive_behavior\<lparr>hasPositiveBehavior := True\<rparr>)
         PersonalityEngine_new) = MOOD_WORRIED
   \<and> MOOD_WORRIED \<noteq> MOOD_CELEBRATING"
  by (simp add: updateMood_def Let_def setMood_def behaviorToMood_def escalateCareLevel_def
      reduceCareLevel_def long_inactive_behavior_def calm_behavior_def
      URGENT_INACTIVITY_THRESHOLD_def PersonalityEngine_new_def)

text \<open>
  Claim C5, amended. The mood after \<open>updateMood\<close> is a function of the snapshot's
  inactivity, \<open>hasPositiveBehavior\<close> and \<open>needsSupport\<close>, and of nothing in the engine:
  more than 120 minutes of inactivity give \<open>MOOD_WORRIED\<close>, more than 60 minutes
  \<open>MOOD_CONCERNED\<close>; otherwise positive behaviour gives \<open>MOOD_CELEBRATING\<close>, otherwise
  a need for support gives \<open>MOOD_CARING\<close>, otherwise the mood is \<open>MOOD_HAPPY\<close>.
\<close>

theorem mood_after_update:
  "currentMood (updateMood behavior e) =
     (if 120 < unat (inactivityMinutes behavior) then MOOD_WORRIED
      else if 60 < unat (inactivityMinutes behavior) then MOOD_CONCERNED
      else if hasPositiveBehavior behavior then MOOD_CELEBRATING
      else if needsSupport behavior then MOOD_CARING
      else MOOD_HAPPY)"
  by (simp add: currentMood_updateMood behaviorToMood_def URGENT_INACTIVITY_THRESHOLD_def
      CONCERNED_INACTIVITY_THRESHOLD_def word_less_nat_alt)

section \<open>Preference learning\<close>

text \<open>
  Claim C9 says that every recorded outcome updates the stored preference. The update is
  behind \<open>learningEnabled\<close>: with learning switched off, an effective response to a
  hydration reminder leaves the preference at 0.5 where the equation gives 0.55.
\<close>

theorem learning_disabled_counterexample:
  "userPreferences (recordUserResponse RESPONSE_HYDRATION True
       (enableLearning False PersonalityEngine_new)) RESPONSE_HYDRATION = 0.5
   \<and> userPreferences (enableLearning False PersonalityEngine_new) RESPONSE_HYDRATION
         * (1 - adaptationRate (enableLearning False PersonalityEngine_new))
       + 1 * adaptationRate (enableLearning False PersonalityEngine_new) = 0.55"
  by (simp add: recordUserResponse_def Let_def enableLearning_def reduceCareLevel_def
      PersonalityEngine_new_def LEARNING_RATE_def)

text \<open>
  Claim C9, amended. While learning is enabled (as it is after construction),
  \<open>recordUserResponse\<close> for a response type below \<open>RESPONSE_COUNT\<close> replaces the stored
  preference of that type by \<open>old * (1 - rate) + (if effective then 1 else 0) * rate\<close>,
  where \<open>rate\<close> is the engine's adaptation rate, and leaves the preferences of all other
  types and the rate as they are; the rate of a new engine is 0.1.
\<close>

theorem preference_moving_average:
  assumes "learningEnabled e" and "type \<noteq> RESPONSE_COUNT"
  shows "userPreferences (recordUserResponse type effective e) =
           (userPreferences e)
             (type := userPreferences e type * (1 - adaptationRate e)
                      + (if effective then 1 else 0) * adaptationRate e)
         \<and> adaptationRate (recordUserResponse type effective e) = adaptationRate e
         \<and> adaptationRate PersonalityEngine_new = 1 / 10
         \<and> learningEnabled PersonalityEngine_new"
  using assms
  by (simp add: recordUserResponse_def Let_def adaptToUser_def PersonalityEngine_new_def
      LEARNING_RATE_def)

theorem preference_moving_average_witness:
  "learningEnabled PersonalityEngine_new
   \<and> RESPONSE_HYDRATION \<noteq> RESPONSE_COUNT
   \<and> userPreferences (recordUserResponse RESPONSE_HYDRATION True PersonalityEngine_new)
        RESPONSE_HYDRATION = 0.55
   \<and> userPreferences (recordUserResponse RESPONSE_HYDRATION True PersonalityEngine_new)
        RESPONSE_MOVEMENT = 0.5"
proof -
  have h1: "learningEnabled PersonalityEngine_new"
    by (simp add: PersonalityEngine_new_def)
  have h2: "RESPONSE_HYDRATION \<noteq> RESPONSE_COUNT" by simp
  have p: "userPreferences PersonalityEngine_new = (\<lambda>_. 0.5)"
    by (simp add: PersonalityEngine_new_def)
  have r: "adaptationRate PersonalityEngine_new = 0.1"
    by (simp add: PersonalityEngine_new_def LEARNING_RATE_def)
  from preference_moving_average [OF h1 h2, of True] h1 show ?thesis
    by (simp add: p r)
qed

section \<open>Monotonicity of the care level\<close>

text \<open>
  Claim C1 says that the care level never goes down in a sequence of mood updates and
  ignored reminders. \<open>updateMood\<close> lowers it when the urgency is below 0.3: a tick with
  200 minutes of inactivity takes a new engine to \<open>CARE_ENCOURAGING\<close>, and the next tick,
  with no inactivity and no need, takes it back to \<open>CARE_GENTLE\<close>, with no user response
  recorded.
\<close>

theorem calm_tick_reduces_care_counterexample:
  "currentCareLevel (run [UpdateMood long_inactive_behavior] PersonalityEngine_new)
     = CARE_ENCOURAGING
   \<and> currentCareLevel
       (run [UpdateMood long_inactive_behavior, UpdateMood calm_behavior] PersonalityEngine_new)
     = CARE_GENTLE"
proof -
  have u: "calculateCaringUrgency long_inactive_behavior = 0.8"
    by (simp add: calculateCaringUrgency_def long_inactive_behavior_def calm_behavior_def
        URGENT_INACTIVITY_THRESHOLD_def)
  have c: "calculateCaringUrgency calm_behavior = 0"
    by (simp add: calculateCaringUrgency_def calm_behavior_def
        URGENT_INACTIVITY_THRESHOLD_def CONCERNED_INACTIVITY_THRESHOLD_def
        NORMAL_INACTIVITY_THRESHOLD_def)
  have "care_int (currentCareLevel (updateMood long_inactive_behavior PersonalityEngine_new))
      = care_int CARE_ENCOURAGING"
    by (simp add: care_updateMood u PersonalityEngine_new_def)
  then have 1: "currentCareLevel (updateMood long_inactive_behavior PersonalityEngine_new)
      = CARE_ENCOURAGING"
    by (simp only: care_int_inject)
  have "care_int (currentCareLevel
      (updateMood calm_behavior (updateMood long_inactive_behavior PersonalityEngine_new)))
      = care_int CARE_GENTLE"
    by (simp add: care_updateMood [of calm_behavior] c 1)
  then have 2: "currentCareLevel
      (updateMood calm_behavior (updateMood long_inactive_behavior PersonalityEngine_new))
      = CARE_GENTLE"
    by (simp only: care_int_inject)
  from 1 2 show ?thesis by simp
qed

text \<open>
  Claim C1, amended. In every sequence of engine operations that contains neither an
  effective user response nor a mood update whose urgency is below 0.3, the care level
  never goes down: it is at least as high after the whole sequence as after any prefix of
  it. In any single operation the care level goes down only if the operation is
  \<open>recordUserResponse\<close> with \<open>effective = True\<close> or \<open>updateMood\<close> with an urgency below
  0.3.
\<close>

theorem care_level_monotone:
  "((\<forall>op \<in> set (xs @ ys). \<not> may_reduce op) \<longrightarrow>
      care_int (currentCareLevel (run xs e)) \<le> care_int (currentCareLevel (run (xs @ ys) e)))
   \<and> (care_int (currentCareLevel (step op e)) < care_int (currentCareLevel e) \<longrightarrow>
        (\<exists>type. op = RecordUserResponse type True)
        \<or> (\<exists>behavior. op = UpdateMood behavior \<and> calculateCaringUrgency behavior < 0.3))"
proof (intro conjI impI)
  assume "\<forall>op \<in> set (xs @ ys). \<not> may_reduce op"
  then have "\<forall>op \<in> set ys. \<not> may_reduce op" by simp
  then show "care_int (currentCareLevel (run xs e))
      \<le> care_int (currentCareLevel (run (xs @ ys) e))"
    by (simp add: run_append run_care)
next
  assume less: "care_int (currentCareLevel (step op e)) < care_int (currentCareLevel e)"
  have "may_reduce op"
  proof (rule ccontr)
    assume "\<not> may_reduce op"
    from step_care [OF this, of e] less show False by simp
  qed
  then show "(\<exists>type. op = RecordUserResponse type True)
      \<or> (\<exists>behavior. op = UpdateMood behavior \<and> calculateCaringUrgency behavior < 0.3)"
    by (cases op) simp_all
qed

theorem care_level_monotone_witness:
  "list_all (\<lambda>op. \<not> may_reduce op)
      ([UpdateMood long_inactive_behavior]
       @ [RecordUserIgnored RESPONSE_MOVEMENT, UpdateMood long_inactive_behavior])
   \<and> care_int (currentCareLevel (run [UpdateMood long_inactive_behavior] PersonalityEngine_new))
      \<le> care_int (currentCareLevel
          (run ([UpdateMood long_inactive_behavior]
               @ [RecordUserIgnored RESPONSE_MOVEMENT, UpdateMood long_inactive_behavior])
             PersonalityEngine_new))
   \<and> care_int (currentCareLevel
        (step (RecordUserResponse RESPONSE_MOVEMENT True)
           (run [UpdateMood long_inactive_behavior] PersonalityEngine_new)))
      < care_int (currentCareLevel (run [UpdateMood long_inactive_behavior] PersonalityEngine_new))"
proof -
  have u: "calculateCaringUrgency long_inactive_behavior = 0.8"
    by (simp add: calculateCaringUrgency_def long_inactive_behavior_def calm_behavior_def
        URGENT_INACTIVITY_THRESHOLD_def)
  have h: "\<forall>op \<in> set ([UpdateMood long_inactive_behavior]
        @ [RecordUserIgnored RESPONSE_MOVEMENT, UpdateMood long_inactive_behavior]).
      \<not> may_reduce op"
    by (simp add: u)
  have d: "care_int (currentCareLevel
        (step (RecordUserResponse RESPONSE_MOVEMENT True)
           (run [UpdateMood long_inactive_behavior] PersonalityEngine_new)))
      < care_int (currentCareLevel (run [UpdateMood long_inactive_behavior] PersonalityEngine_new))"
    by (simp add: care_recordUserResponse care_updateMood u PersonalityEngine_new_def)
  from care_level_monotone [of "[UpdateMood long_inactive_behavior]"
      "[RecordUserIgnored RESPONSE_MOVEMENT, UpdateMood long_inactive_behavior]"
      PersonalityEngine_new "RecordUserResponse RESPONSE_MOVEMENT True"] h d
  show ?thesis unfolding list_all_iff by blast
qed

section \<open>The bound of the message queue\<close>

text \<open>
  Claim C10. The queue of pending messages never holds more than 10 entries: that holds
  after every sequence of operations on a new engine, and is kept by every sequence of
  operations from any state where it holds. When \<open>queueMessage\<close> is called with 10
  entries in the queue, the message is dropped and the engine is left exactly as it was.
\<close>

theorem queue_never_exceeds_ten:
  "length (messageQueue (run ops PersonalityEngine_new)) \<le> 10
   \<and> (length (messageQueue e) \<le> 10 \<longrightarrow> length (messageQueue (run ops e)) \<le> 10)
   \<and> (length (messageQueue e) = 10 \<longrightarrow> queueMessage message e = e)"
proof -
  have "length (messageQueue PersonalityEngine_new) \<le> 10"
    by (simp add: PersonalityEngine_new_def)
  then have "length (messageQueue (run ops PersonalityEngine_new)) \<le> 10"
    by (rule run_queue)
  then show ?thesis
    by (simp add: run_queue queueMessage_def)
qed

theorem queue_never_exceeds_ten_witness:
  "length (messageQueue
      (run (replicate 10 (QueueMessage ''Time to stretch'')) PersonalityEngine_new)) = 10
   \<and> queueMessage ''One more''
        (run (replicate 10 (QueueMessage ''Time to stretch'')) PersonalityEngine_new)
      = run (replicate 10 (QueueMessage ''Time to stretch'')) PersonalityEngine_new
   \<and> length (messageQueue
        (run (replicate 12 (QueueMessage ''Time to stretch'')) PersonalityEngine_new)) \<le> 10"
proof -
  let ?e = "run (replicate 10 (QueueMessage ''Time to stretch'')) PersonalityEngine_new"
  have full: "length (messageQueue ?e) = 10"
    using run_replicate_queue [of PersonalityEngine_new 10 "''Time to stretch''"]
    by (simp add: PersonalityEngine_new_def)
  from queue_never_exceeds_ten
    [of "replicate 12 (QueueMessage ''Time to stretch'')" ?e "''One more''"] full
  show ?thesis by blast
qed


end
